theory Spec2Isabelle
  imports Main
begin

section \<open>JavaScript strings, numbers and values\<close>

text \<open>
  A JavaScript string is a sequence of UTF-16 code units. \<open>units\<close> turns an ASCII
  literal into one.
\<close>

type_synonym js_string = "nat list"

abbreviation units :: "string \<Rightarrow> js_string" where
  "units s \<equiv> map of_char s"

text \<open>
  The values that \<open>express.json()\<close> can put under a key of \<open>req.body\<close>, plus
  \<open>undefined\<close> for a key that is absent. The numbers of a body are taken to be
  integers; the handlers only test them for truthiness and store them.
\<close>

datatype jsval =
    JUndefined
  | JNull
  | JBool bool
  | JNum int
  | JStr js_string
  | JArray "jsval list"
  | JObject "(js_string \<times> jsval) list"

text \<open>\<open>!v\<close> is \<open>\<not> truthy v\<close>: the falsy values are undefined, null, false, 0 and "".\<close>

fun truthy :: "jsval \<Rightarrow> bool" where
  "truthy JUndefined = False"
| "truthy JNull = False"
| "truthy (JBool b) = b"
| "truthy (JNum n) = (n \<noteq> 0)"
| "truthy (JStr s) = (s \<noteq> [])"
| "truthy (JArray xs) = True"
| "truthy (JObject kvs) = True"

text \<open>\<open>typeof v === "boolean"\<close>.\<close>

fun is_boolean :: "jsval \<Rightarrow> bool" where
  "is_boolean (JBool b) = True"
| "is_boolean v = False"

text \<open>
  \<open>req.body\<close>: \<open>None\<close> is \<open>undefined\<close> (no body was parsed), \<open>Some b\<close> is the
  parsed JSON object, by property name. \<open>property b k\<close> is the property read \<open>b.k\<close> of
  the destructuring \<open>const { title, completed } = req.body\<close>.
\<close>

type_synonym req_body = "(string \<rightharpoonup> jsval) option"

definition property :: "(string \<rightharpoonup> jsval) \<Rightarrow> string \<Rightarrow> jsval" where
  "property b k = (case b k of None \<Rightarrow> JUndefined | Some v \<Rightarrow> v)"

section \<open>Numbers: rounding to a double\<close>

text \<open>
  A JavaScript number is a binary64 double. Those that the program computes are
  integers, and the model keeps an integer-valued double as that integer. An integer of
  absolute value up to 2 to the power 53 is a double; a larger one is a double only when
  it fits in 53 significant bits.
\<close>

fun bit_length :: "nat \<Rightarrow> nat" where
  "bit_length n = (if n = 0 then 0 else Suc (bit_length (n div 2)))"

declare bit_length.simps [simp del]

text \<open>
  The double nearest to an integer, ties going to the even significand, as every
  arithmetic operation and every conversion of the runtime rounds. The overflow to
  infinity is left to the caller: an integer from 2 to the power 1024 minus 2 to the
  power 970 on is rounded here to 2 to the power 1024, which is no double.
\<close>

definition double_round :: "int \<Rightarrow> int" where
  "double_round m =
     (let a = nat \<bar>m\<bar> in
      if a \<le> 2 ^ 53 then m
      else
        (let q = 2 ^ (bit_length a - 53);
             k = a div q;
             r = a mod q;
             k' = (if q < 2 * r \<or> (2 * r = q \<and> odd k) then k + 1 else k)
         in sgn m * int (k' * q)))"

text \<open>\<open>x++\<close> on a number stores the double sum of \<open>x\<close> and 1.\<close>

definition js_increment :: "int \<Rightarrow> int" where
  "js_increment x = double_round (x + 1)"

section \<open>Strings: white space, trim and parseInt\<close>

text \<open>
  The code units that \<open>trim\<close> and \<open>parseInt\<close> skip: the white space and the line
  terminators of ECMAScript (TAB, LF, VT, FF, CR, SPACE, NBSP, U+1680, U+2000 to U+200A,
  U+2028, U+2029, U+202F, U+205F, U+3000 and U+FEFF).
\<close>

definition is_ws :: "nat \<Rightarrow> bool" where
  "is_ws u = (u \<in> {9, 10, 11, 12, 13, 32, 160, 5760, 8232, 8233, 8239, 8287, 12288, 65279}
              \<or> (8192 \<le> u \<and> u \<le> 8202))"


text \<open>
  The value of a code unit as a digit in radix \<open>r\<close> (at most 36), if it is one.
\<close>

definition digit_val :: "nat \<Rightarrow> nat \<Rightarrow> nat option" where
  "digit_val r n =
     (let v = (if 48 \<le> n \<and> n \<le> 57 then Some (n - 48)
               else if 97 \<le> n \<and> n \<le> 122 then Some (n - 87)
               else if 65 \<le> n \<and> n \<le> 90 then Some (n - 55)
               else None)
      in case v of None \<Rightarrow> None | Some d \<Rightarrow> if d < r then Some d else None)"

text \<open>The results of \<open>parseInt\<close>: a double that is an integer, NaN or an infinity.\<close>

datatype js_number = Num int | NaN | PosInfinity | NegInfinity

text \<open>
  \<open>parseInt(s)\<close> with no radix argument: leading white space is skipped, a sign is
  read, a prefix 0x or 0X selects radix 16, the longest run of digits is read, and an
  empty run of digits gives NaN. The result is the double nearest to the integer that
  the digits denote, an infinity when that is beyond the doubles. (The standard lets an
  implementation read the digits after the twentieth of a decimal run as zeros; the
  model reads them all.)
\<close>

definition parseInt :: "js_string \<Rightarrow> js_number" where
  "parseInt s =
     (let s1 = dropWhile is_ws s;
          neg = (s1 \<noteq> [] \<and> hd s1 = 45);
          s2 = (if s1 \<noteq> [] \<and> (hd s1 = 43 \<or> hd s1 = 45) then tl s1 else s1);
          hex = (take 2 s2 = units ''0x'' \<or> take 2 s2 = units ''0X'');
          r = (if hex then 16 else 10 :: nat);
          s3 = (if hex then drop 2 s2 else s2);
          z = takeWhile (\<lambda>c. digit_val r c \<noteq> None) s3;
          m = foldl (\<lambda>acc c. acc * int r + int (the (digit_val r c))) 0 z;
          v = double_round (if neg then - m else m)
      in if z = [] then NaN
         else if 2 ^ 1024 \<le> v then PosInfinity
         else if v \<le> - (2 ^ 1024) then NegInfinity
         else Num v)"

section \<open>The data model\<close>

text \<open>
  The typedefs \<open>Task\<close> and \<open>DataStore\<close> of \<open>utils/storage.js\<close>. The handlers
  store whatever \<open>title\<close> and \<open>completed\<close> they are given, so these two fields
  hold JavaScript values; ids come from the counter \<open>nextId\<close>. Both are numbers, kept
  as the integers they are.
\<close>

record task =
  task_id :: int
  title :: jsval
  completed :: jsval

record document =
  tasks :: "task list"
  nextId :: int

section \<open>The store: utils/storage.js\<close>

text \<open>
  The state of the file at \<open>DATA_PATH\<close>: there is none, there is one that the process
  cannot read, or there is one with a text. The text is of a type \<open>'f\<close> that the
  handlers never inspect: they hand it from \<open>fs.readFile\<close> to \<open>JSON.parse\<close> and from
  \<open>JSON.stringify\<close> to \<open>fs.writeFile\<close>. The two JSON functions belong to the
  runtime and are parameters \<open>parse\<close> and \<open>stringify\<close> of the handlers; \<open>parse\<close>
  returns \<open>Inl SyntaxError\<close> where \<open>JSON.parse\<close> throws. Files that hold JSON of
  another shape than a \<open>DataStore\<close> are outside the model.
\<close>

datatype 'f data_file = Missing | Unreadable | Content 'f

datatype error = ENOENT | EACCES | ENOSPC | SyntaxError | WriteError

definition fs_readFile :: "'f data_file \<Rightarrow> error + 'f" where
  "fs_readFile f = (case f of Missing \<Rightarrow> Inl ENOENT | Unreadable \<Rightarrow> Inl EACCES | Content s \<Rightarrow> Inr s)"

text \<open>
  What a call of \<open>fs.writeFile\<close> does is decided outside the program: it writes the
  whole text, it is refused before it has touched the file, or it fails after it has
  opened the file, which the flag \<open>w\<close> has truncated by then, and leaves the part of the
  text that it had written.
\<close>

datatype 'f write_outcome = Written | Refused | Torn 'f

text \<open>
  The file after a text has been written to it. The program changes no permission: a
  file that the process cannot read stays so, whatever is written to it. A file that
  the write creates can be read.
\<close>

definition fs_written :: "'f \<Rightarrow> 'f data_file \<Rightarrow> 'f data_file" where
  "fs_written s f = (case f of Unreadable \<Rightarrow> Unreadable | _ \<Rightarrow> Content s)"

definition fs_writeFile :: "'f write_outcome \<Rightarrow> 'f \<Rightarrow> 'f data_file \<Rightarrow> (error + unit) \<times> 'f data_file" where
  "fs_writeFile wo s f =
     (case wo of
        Written \<Rightarrow> (Inr (), fs_written s f)
      | Refused \<Rightarrow> (Inl EACCES, f)
      | Torn s' \<Rightarrow> (Inl ENOSPC, fs_written s' f))"

definition default_data :: document where
  "default_data = \<lparr>tasks = [], nextId = 1\<rparr>"

text \<open>
  \<open>readData\<close>: the \<open>try\<close> block reads and parses, the \<open>catch\<close> block returns the
  default structure for every error.
\<close>

definition readData :: "('f \<Rightarrow> error + document) \<Rightarrow> 'f data_file \<Rightarrow> document" where
  "readData parse f =
     (case fs_readFile f of
        Inl e \<Rightarrow> default_data
      | Inr s \<Rightarrow> (case parse s of Inl e \<Rightarrow> default_data | Inr d \<Rightarrow> d))"

text \<open>\<open>writeData\<close>: a failed write is rethrown as a new error.\<close>

definition writeData ::
  "(document \<Rightarrow> 'f) \<Rightarrow> 'f write_outcome \<Rightarrow> document \<Rightarrow> 'f data_file \<Rightarrow> (error + unit) \<times> 'f data_file" where
  "writeData stringify wo d f =
     (case fs_writeFile wo (stringify d) f of
        (Inl e, f') \<Rightarrow> (Inl WriteError, f')
      | (Inr u, f') \<Rightarrow> (Inr (), f'))"

section \<open>The handlers: controllers/taskController.js\<close>

text \<open>
  Each handler is one \<open>try\<close> block whose \<open>catch\<close> answers 500: the branches that
  answer 500 below are the two places where the block can throw, the destructuring of an
  undefined \<open>req.body\<close> (a TypeError) and a failed \<open>writeData\<close>. An answer sent
  with \<open>res.json\<close> alone has status 200.

  The error messages of the handlers, in the order in which the source has them:
  "Erreur lors de la recuperation des taches", "Donnees invalides",
  "Erreur lors de la creation de la tache", "Tache non trouvee",
  "Erreur lors de la mise a jour", "Erreur lors de la suppression".
\<close>

datatype err_msg =
    ErreurRecuperation
  | DonneesInvalides
  | ErreurCreation
  | TacheNonTrouvee
  | ErreurMiseAJour
  | ErreurSuppression

datatype json_body =
    TasksJson "task list"
  | TaskJson task
  | ErrorJson err_msg
  | MessageJson string

record response =
  status :: nat
  body :: json_body

text \<open>\<open>Array.prototype.findIndex\<close>; \<open>None\<close> is the result -1.\<close>

fun findIndex :: "('a \<Rightarrow> bool) \<Rightarrow> 'a list \<Rightarrow> nat option" where
  "findIndex P [] = None"
| "findIndex P (x # xs) =
     (if P x then Some 0 else (case findIndex P xs of None \<Rightarrow> None | Some i \<Rightarrow> Some (Suc i)))"

text \<open>\<open>xs.splice(i, 1)\<close> for an index inside the array.\<close>

definition splice1 :: "nat \<Rightarrow> 'a list \<Rightarrow> 'a list" where
  "splice1 i xs = take i xs @ drop (Suc i) xs"

text \<open>
  \<open>task.id === id\<close>, where \<open>id\<close> is the result of \<open>parseInt\<close>: NaN and the
  infinities equal no id.
\<close>

definition id_matches :: "js_number \<Rightarrow> task \<Rightarrow> bool" where
  "id_matches i t = (i = Num (task_id t))"

definition getAllTasks :: "('f \<Rightarrow> error + document) \<Rightarrow> 'f data_file \<Rightarrow> response \<times> 'f data_file" where
  "getAllTasks parse f = (\<lparr>status = 200, body = TasksJson (tasks (readData parse f))\<rparr>, f)"

definition createTask ::
  "('f \<Rightarrow> error + document) \<Rightarrow> (document \<Rightarrow> 'f) \<Rightarrow> 'f write_outcome \<Rightarrow> req_body \<Rightarrow> 'f data_file
    \<Rightarrow> response \<times> 'f data_file" where
  "createTask parse stringify wo rb f =
     (case rb of
        None \<Rightarrow> (\<lparr>status = 500, body = ErrorJson ErreurCreation\<rparr>, f)
      | Some b \<Rightarrow>
          (let title = property b ''title''; completed = property b ''completed'' in
           if \<not> truthy title \<or> \<not> is_boolean completed
           then (\<lparr>status = 400, body = ErrorJson DonneesInvalides\<rparr>, f)
           else
             (let d = readData parse f;
                  newTask = \<lparr>task_id = nextId d, title = title, completed = completed\<rparr>;
                  d' = d\<lparr>tasks := tasks d @ [newTask], nextId := js_increment (nextId d)\<rparr>
              in case writeData stringify wo d' f of
                   (Inl e, f') \<Rightarrow> (\<lparr>status = 500, body = ErrorJson ErreurCreation\<rparr>, f')
                 | (Inr u, f') \<Rightarrow> (\<lparr>status = 201, body = TaskJson newTask\<rparr>, f'))))"

definition updateTask ::
  "('f \<Rightarrow> error + document) \<Rightarrow> (document \<Rightarrow> 'f) \<Rightarrow> 'f write_outcome \<Rightarrow> js_string \<Rightarrow> req_body
    \<Rightarrow> 'f data_file \<Rightarrow> response \<times> 'f data_file" where
  "updateTask parse stringify wo idParam rb f =
     (let i = parseInt idParam in
      case rb of
        None \<Rightarrow> (\<lparr>status = 500, body = ErrorJson ErreurMiseAJour\<rparr>, f)
      | Some b \<Rightarrow>
          (let title = property b ''title''; completed = property b ''completed'';
               d = readData parse f
           in case findIndex (id_matches i) (tasks d) of
                None \<Rightarrow> (\<lparr>status = 404, body = ErrorJson TacheNonTrouvee\<rparr>, f)
              | Some taskIndex \<Rightarrow>
                  (let t0 = tasks d ! taskIndex;
                       t1 = (if title \<noteq> JUndefined then t0\<lparr>title := title\<rparr> else t0);
                       t2 = (if completed \<noteq> JUndefined then t1\<lparr>completed := completed\<rparr> else t1);
                       d' = d\<lparr>tasks := (tasks d)[taskIndex := t2]\<rparr>
                   in case writeData stringify wo d' f of
                        (Inl e, f') \<Rightarrow> (\<lparr>status = 500, body = ErrorJson ErreurMiseAJour\<rparr>, f')
                      | (Inr u, f') \<Rightarrow> (\<lparr>status = 200, body = TaskJson t2\<rparr>, f'))))"

definition deleteTask ::
  "('f \<Rightarrow> error + document) \<Rightarrow> (document \<Rightarrow> 'f) \<Rightarrow> 'f write_outcome \<Rightarrow> js_string \<Rightarrow> 'f data_file
    \<Rightarrow> response \<times> 'f data_file" where
  "deleteTask parse stringify wo idParam f =
     (let i = parseInt idParam;
          d = readData parse f
      in case findIndex (id_matches i) (tasks d) of
           None \<Rightarrow> (\<lparr>status = 404, body = ErrorJson TacheNonTrouvee\<rparr>, f)
         | Some taskIndex \<Rightarrow>
             (let d' = d\<lparr>tasks := splice1 taskIndex (tasks d)\<rparr>
              in case writeData stringify wo d' f of
                   (Inl e, f') \<Rightarrow> (\<lparr>status = 500, body = ErrorJson ErreurSuppression\<rparr>, f')
                 | (Inr u, f') \<Rightarrow>
                     (\<lparr>status = 200, body = MessageJson ''Task deleted successfully''\<rparr>, f')))"

section \<open>The routes: routes/tasks.js\<close>

text \<open>
  The router mounts each handler alone on its verb and path: the validation middlewares
  of \<open>middleware/validation.js\<close> are mounted nowhere. The file registers every route
  twice; the first registration sends the answer and never calls \<open>next\<close>, so the second
  is never reached. A run serves requests one after the other, each with the outcome of
  its disk write: two requests are never in flight together, and nothing but the
  program changes the file.
\<close>

datatype request =
    GET_tasks
  | POST_tasks req_body
  | PUT_tasks js_string req_body
  | DELETE_tasks js_string

definition router ::
  "('f \<Rightarrow> error + document) \<Rightarrow> (document \<Rightarrow> 'f) \<Rightarrow> 'f write_outcome \<Rightarrow> request \<Rightarrow> 'f data_file
    \<Rightarrow> response \<times> 'f data_file" where
  "router parse stringify wo rq f =
     (case rq of
        GET_tasks \<Rightarrow> getAllTasks parse f
      | POST_tasks rb \<Rightarrow> createTask parse stringify wo rb f
      | PUT_tasks idParam rb \<Rightarrow> updateTask parse stringify wo idParam rb f
      | DELETE_tasks idParam \<Rightarrow> deleteTask parse stringify wo idParam f)"

fun run ::
  "('f \<Rightarrow> error + document) \<Rightarrow> (document \<Rightarrow> 'f) \<Rightarrow> (request \<times> 'f write_outcome) list
    \<Rightarrow> 'f data_file \<Rightarrow> response list \<times> 'f data_file" where
  "run parse stringify [] f = ([], f)"
| "run parse stringify ((rq, wo) # rqs) f =
     (let (r, f') = router parse stringify wo rq f;
          (rs, f'') = run parse stringify rqs f'
      in (r # rs, f''))"

text \<open>The id that a request was given: that of the task in a 201 answer to a POST.\<close>

fun assigned :: "request \<times> 'f write_outcome \<Rightarrow> response \<Rightarrow> int list" where
  "assigned (POST_tasks rb, wo) r =
     (case body r of TaskJson t \<Rightarrow> (if status r = 201 then [task_id t] else []) | _ \<Rightarrow> [])"
| "assigned (rq, wo) r = []"

definition assigned_ids :: "(request \<times> 'f write_outcome) list \<Rightarrow> response list \<Rightarrow> int list" where
  "assigned_ids rqs rs = concat (map2 assigned rqs rs)"

text \<open>A write that fails part-way.\<close>

fun torn :: "'f write_outcome \<Rightarrow> bool" where
  "torn (Torn s) = True"
| "torn wo = False"

section \<open>The invariant of the data model and example data\<close>

text \<open>Every stored id is below the counter, and no two stored tasks share an id.\<close>

definition doc_inv :: "document \<Rightarrow> bool" where
  "doc_inv d = (list_all (\<lambda>t. task_id t < nextId d) (tasks d) \<and> distinct (map task_id (tasks d)))"

definition doc_x :: document where
  "doc_x = \<lparr>tasks = [\<lparr>task_id = 1, title = JStr (units ''X''), completed = JBool False\<rparr>], nextId = 2\<rparr>"

definition doc_ab :: document where
  "doc_ab = \<lparr>tasks = [\<lparr>task_id = 1, title = JStr (units ''A''), completed = JBool False\<rparr>,
                       \<lparr>task_id = 2, title = JStr (units ''B''), completed = JBool True\<rparr>], nextId = 3\<rparr>"

definition doc_abc :: document where
  "doc_abc = \<lparr>tasks = [\<lparr>task_id = 1, title = JStr (units ''A''), completed = JBool False\<rparr>,
                        \<lparr>task_id = 2, title = JStr (units ''B''), completed = JBool True\<rparr>,
                        \<lparr>task_id = 3, title = JStr (units ''C''), completed = JBool False\<rparr>], nextId = 4\<rparr>"

text \<open>
  A run on a store with no file: a create, the deletion of the task it made, a create
  whose write is refused, and a create whose write succeeds.
\<close>

definition demo_requests :: "(request \<times> document write_outcome) list" where
  "demo_requests =
     [(POST_tasks (Some [''title'' \<mapsto> JStr (units ''a''), ''completed'' \<mapsto> JBool False]), Written),
      (DELETE_tasks (units ''1''), Written),
      (POST_tasks (Some [''title'' \<mapsto> JStr (units ''b''), ''completed'' \<mapsto> JBool False]), Refused),
      (POST_tasks (Some [''title'' \<mapsto> JStr (units ''c''), ''completed'' \<mapsto> JBool True]), Written)]"

definition demo_responses :: "response list" where
  "demo_responses =
     [\<lparr>status = 201, body = TaskJson \<lparr>task_id = 1, title = JStr (units ''a''), completed = JBool False\<rparr>\<rparr>,
      \<lparr>status = 200, body = MessageJson ''Task deleted successfully''\<rparr>,
      \<lparr>status = 500, body = ErrorJson ErreurCreation\<rparr>,
      \<lparr>status = 201, body = TaskJson \<lparr>task_id = 2, title = JStr (units ''c''), completed = JBool True\<rparr>\<rparr>]"

text \<open>Two creates, both written.\<close>

definition two_creates :: "(request \<times> document write_outcome) list" where
  "two_creates =
     [(POST_tasks (Some [''title'' \<mapsto> JStr (units ''a''), ''completed'' \<mapsto> JBool False]), Written),
      (POST_tasks (Some [''title'' \<mapsto> JStr (units ''b''), ''completed'' \<mapsto> JBool False]), Written)]"

text \<open>
  The task that the two conditional assignments of \<open>updateTask\<close> leave in the place
  of the task \<open>t0\<close> they found, as one expression.
\<close>

definition patched :: "(string \<rightharpoonup> jsval) \<Rightarrow> task \<Rightarrow> task" where
  "patched b t0 =
     t0\<lparr>title := (if property b ''title'' \<noteq> JUndefined then property b ''title'' else title t0),
        completed := (if property b ''completed'' \<noteq> JUndefined then property b ''completed''
                      else completed t0)\<rparr>"

section \<open>Facts about the store and the array functions\<close>

lemma writeData_eq:
  "writeData stringify wo d f =
     (case wo of
        Written \<Rightarrow> (Inr (), fs_written (stringify d) f)
      | Refused \<Rightarrow> (Inl WriteError, f)
      | Torn s' \<Rightarrow> (Inl WriteError, fs_written s' f))"
  by (simp add: writeData_def fs_writeFile_def split: write_outcome.splits)

lemma fs_written_readable: "f \<noteq> Unreadable \<Longrightarrow> fs_written s f = Content s"
  by (cases f) (simp_all add: fs_written_def)

lemma fs_written_Unreadable: "fs_written s Unreadable = Unreadable"
  by (simp add: fs_written_def)

lemma readData_Content:
  "parse s = Inr d \<Longrightarrow> readData parse (Content s) = d"
  by (simp add: readData_def fs_readFile_def)

lemma readData_Missing: "readData parse Missing = default_data"
  by (simp add: readData_def fs_readFile_def)

lemma readData_Unreadable: "readData parse Unreadable = default_data"
  by (simp add: readData_def fs_readFile_def)

text \<open>A document with a task in it was read from a file that can be read.\<close>

lemma tasks_readable: "tasks (readData parse f) \<noteq> [] \<Longrightarrow> f \<noteq> Unreadable"
  by (auto simp: readData_Unreadable default_data_def)

lemma findIndex_None_iff: "findIndex P xs = None \<longleftrightarrow> (\<forall>x \<in> set xs. \<not> P x)"
  by (induction xs) (auto split: option.splits)

lemma findIndex_Some:
  "findIndex P xs = Some i \<Longrightarrow> i < length xs \<and> P (xs ! i) \<and> (\<forall>j < i. \<not> P (xs ! j))"
proof (induction xs arbitrary: i)
  case Nil
  then show ?case by simp
next
  case (Cons x xs)
  show ?case
  proof (cases "P x")
    case True
    with Cons.prems show ?thesis by simp
  next
    case False
    with Cons.prems obtain k where k: "findIndex P xs = Some k" "i = Suc k"
      by (auto split: option.splits)
    from Cons.IH [OF k(1)] False k(2) show ?thesis
      by (auto simp: nth_Cons less_Suc_eq_0_disj split: nat.splits)
  qed
qed

lemma found_readable:
  assumes "findIndex P (tasks (readData parse f)) = Some i"
  shows "f \<noteq> Unreadable"
proof -
  from findIndex_Some [OF assms] have "tasks (readData parse f) \<noteq> []" by auto
  then show ?thesis by (rule tasks_readable)
qed

lemma splice1_unique:
  "findIndex P xs = Some i \<Longrightarrow> length (filter P xs) = 1 \<Longrightarrow>
   splice1 i xs = filter (\<lambda>x. \<not> P x) xs"
proof (induction xs arbitrary: i)
  case Nil
  then show ?case by simp
next
  case (Cons x xs)
  show ?case
  proof (cases "P x")
    case True
    with Cons.prems have "i = 0" and "filter P xs = []" by simp_all
    then have "filter (\<lambda>x. \<not> P x) xs = xs"
      by (simp add: filter_empty_conv)
    with True \<open>i = 0\<close> show ?thesis by (simp add: splice1_def)
  next
    case False
    with Cons.prems obtain k where k: "findIndex P xs = Some k" "i = Suc k"
      by (auto split: option.splits)
    from Cons.prems False have "length (filter P xs) = 1" by simp
    from Cons.IH [OF k(1) this] False k(2) show ?thesis by (simp add: splice1_def)
  qed
qed

lemma splice1_set: "set (splice1 i xs) \<subseteq> set xs"
  by (auto simp: splice1_def dest: in_set_takeD in_set_dropD)

lemma splice1_distinct_map:
  assumes "distinct (map g xs)"
  shows "distinct (map g (splice1 i xs))"
proof -
  have "map g (splice1 i xs) = take i (map g xs) @ drop (Suc i) (map g xs)"
    by (simp add: splice1_def take_map drop_map)
  moreover from assms have "set (take i (map g xs)) \<inter> set (drop (Suc i) (map g xs)) = {}"
    by (rule set_take_disj_set_drop_if_distinct) simp
  ultimately show ?thesis using assms by simp
qed

section \<open>Facts about numbers and parseInt\<close>

lemma double_round_exact: "\<bar>m\<bar> \<le> 2 ^ 53 \<Longrightarrow> double_round m = m"
  by (simp add: double_round_def Let_def nat_le_iff)

lemma js_increment_exact: "- (2 ^ 53) \<le> x \<Longrightarrow> x < 2 ^ 53 \<Longrightarrow> js_increment x = x + 1"
  by (simp add: js_increment_def double_round_exact)

text \<open>The counter stops at 2 to the power 53: the double sum of it and 1 is itself.\<close>

lemma bit_length_numeral:
  "bit_length (numeral (Num.Bit0 k)) = Suc (bit_length (numeral k))"
  "bit_length (numeral (Num.Bit1 k)) = Suc (bit_length (numeral k))"
  "bit_length (Suc 0) = Suc 0"
  by (simp_all add: bit_length.simps [of "numeral (Num.Bit0 k)"] bit_length.simps [of "numeral (Num.Bit1 k)"]
      bit_length.simps [of "Suc 0"] bit_length.simps [of 0] numeral_Bit0_div_2 numeral_Bit1_div_2)

lemma js_increment_stops: "js_increment 9007199254740992 = 9007199254740992"
  by (simp add: js_increment_def double_round_def Let_def bit_length_numeral)

lemma double_round_above: "double_round 9007199254740993 = 9007199254740992"
  by (simp add: double_round_def Let_def bit_length_numeral)



lemma parseInt_1: "parseInt (units ''1'') = Num 1"
  by (simp add: parseInt_def Let_def is_ws_def digit_val_def double_round_def)

lemma parseInt_2: "parseInt (units ''2'') = Num 2"
  by (simp add: parseInt_def Let_def is_ws_def digit_val_def double_round_def)


text \<open>The parameter 9007199254740993 parses to the double 9007199254740992.\<close>

lemma parseInt_rounds: "parseInt (units ''9007199254740993'') = Num 9007199254740992"
  by (simp add: parseInt_def Let_def is_ws_def digit_val_def double_round_def bit_length_numeral)

text \<open>A no-break space before the digits is skipped.\<close>

lemma parseInt_nbsp: "parseInt (160 # units ''2'') = Num 2"
  by (simp add: parseInt_def Let_def is_ws_def digit_val_def double_round_def)

section \<open>What each handler answers and writes\<close>

lemma createTask_body:
  "createTask parse stringify wo (Some b) f =
     (let d = readData parse f;
          newTask = \<lparr>task_id = nextId d, title = property b ''title'',
                     completed = property b ''completed''\<rparr>
      in if \<not> truthy (property b ''title'') \<or> \<not> is_boolean (property b ''completed'')
         then (\<lparr>status = 400, body = ErrorJson DonneesInvalides\<rparr>, f)
         else
           (case wo of
              Written \<Rightarrow> (\<lparr>status = 201, body = TaskJson newTask\<rparr>,
                 fs_written (stringify (d\<lparr>tasks := tasks d @ [newTask],
                                           nextId := js_increment (nextId d)\<rparr>)) f)
            | Refused \<Rightarrow> (\<lparr>status = 500, body = ErrorJson ErreurCreation\<rparr>, f)
            | Torn s' \<Rightarrow> (\<lparr>status = 500, body = ErrorJson ErreurCreation\<rparr>, fs_written s' f)))"
  by (simp add: createTask_def Let_def writeData_eq split: write_outcome.splits)

lemma updateTask_no_body:
  "updateTask parse stringify wo idParam None f =
     (\<lparr>status = 500, body = ErrorJson ErreurMiseAJour\<rparr>, f)"
  by (simp add: updateTask_def)

lemma updateTask_not_found:
  "findIndex (id_matches (parseInt idParam)) (tasks (readData parse f)) = None \<Longrightarrow>
   updateTask parse stringify wo idParam (Some b) f =
     (\<lparr>status = 404, body = ErrorJson TacheNonTrouvee\<rparr>, f)"
  by (simp add: updateTask_def Let_def)

lemma deleteTask_not_found:
  "findIndex (id_matches (parseInt idParam)) (tasks (readData parse f)) = None \<Longrightarrow>
   deleteTask parse stringify wo idParam f =
     (\<lparr>status = 404, body = ErrorJson TacheNonTrouvee\<rparr>, f)"
  by (simp add: deleteTask_def Let_def)

lemma updateTask_found:
  assumes "findIndex (id_matches (parseInt idParam)) (tasks (readData parse f)) = Some i"
  shows "updateTask parse stringify wo idParam (Some b) f =
     (let d = readData parse f; t2 = patched b (tasks d ! i)
      in case wo of
           Written \<Rightarrow> (\<lparr>status = 200, body = TaskJson t2\<rparr>,
                       Content (stringify (d\<lparr>tasks := (tasks d)[i := t2]\<rparr>)))
         | Refused \<Rightarrow> (\<lparr>status = 500, body = ErrorJson ErreurMiseAJour\<rparr>, f)
         | Torn s' \<Rightarrow> (\<lparr>status = 500, body = ErrorJson ErreurMiseAJour\<rparr>, Content s'))"
  using assms found_readable [OF assms]
  by (simp add: updateTask_def Let_def writeData_eq patched_def fs_written_readable
      split: write_outcome.splits)

lemma deleteTask_found:
  assumes "findIndex (id_matches (parseInt idParam)) (tasks (readData parse f)) = Some i"
  shows "deleteTask parse stringify wo idParam f =
     (let d = readData parse f
      in case wo of
           Written \<Rightarrow> (\<lparr>status = 200, body = MessageJson ''Task deleted successfully''\<rparr>,
                       Content (stringify (d\<lparr>tasks := splice1 i (tasks d)\<rparr>)))
         | Refused \<Rightarrow> (\<lparr>status = 500, body = ErrorJson ErreurSuppression\<rparr>, f)
         | Torn s' \<Rightarrow> (\<lparr>status = 500, body = ErrorJson ErreurSuppression\<rparr>, Content s'))"
  using assms found_readable [OF assms]
  by (simp add: deleteTask_def Let_def writeData_eq fs_written_readable
      split: write_outcome.splits)

text \<open>An update that answers 200 found its task and wrote the patched document.\<close>

lemma updateTask_ok:
  assumes codec: "\<forall>d. parse (stringify d) = Inr d"
    and res: "updateTask parse stringify wo idParam rb f = (r, f')"
    and ok: "status r = 200"
  obtains b i where "rb = Some b"
    and "findIndex (id_matches (parseInt idParam)) (tasks (readData parse f)) = Some i"
    and "i < length (tasks (readData parse f))"
    and "r = \<lparr>status = 200, body = TaskJson (patched b (tasks (readData parse f) ! i))\<rparr>"
    and "readData parse f' =
           (readData parse f)\<lparr>tasks := (tasks (readData parse f))
              [i := patched b (tasks (readData parse f) ! i)]\<rparr>"
proof -
  let ?d = "readData parse f"
  from res ok obtain b where b: "rb = Some b"
    by (cases rb) (auto simp: updateTask_def)
  from res ok b obtain i where found: "findIndex (id_matches (parseInt idParam)) (tasks ?d) = Some i"
    by (cases "findIndex (id_matches (parseInt idParam)) (tasks ?d)")
       (auto simp: updateTask_not_found)
  from findIndex_Some [OF found] have i: "i < length (tasks ?d)" by simp
  from res ok b have wo: "wo = Written"
    by (cases wo) (auto simp: updateTask_found [OF found] Let_def)
  with res b have r: "r = \<lparr>status = 200, body = TaskJson (patched b (tasks ?d ! i))\<rparr>"
    and f': "f' = Content (stringify (?d\<lparr>tasks := (tasks ?d)[i := patched b (tasks ?d ! i)]\<rparr>))"
    by (simp_all add: updateTask_found [OF found] Let_def)
  from f' codec have "readData parse f' = ?d\<lparr>tasks := (tasks ?d)[i := patched b (tasks ?d ! i)]\<rparr>"
    by (simp add: readData_Content)
  with b found i r show thesis by (rule that)
qed

lemma task_id_patched: "task_id (patched b t) = task_id t"
  by (simp add: patched_def)

lemma map_task_id_patched:
  "i < length ts \<Longrightarrow> map task_id (ts[i := patched b (ts ! i)]) = map task_id ts"
  by (simp add: map_update task_id_patched list_update_same_conv)

lemma ideal_codec: "\<forall>d. (Inr :: document \<Rightarrow> error + document) ((\<lambda>d. d) d) = Inr d"
  by simp

section \<open>One request, then a run of requests\<close>

text \<open>
  On a file that can be read, with a write that is not torn and a counter in the range
  where adding 1 is exact, a request either is a create that answers 201, is given the
  counter as its id and moves the counter up by one, or is given no id and leaves the
  counter where it was. The file can still be read afterwards, and the invariant of the
  data model is kept.
\<close>

lemma router_step:
  assumes codec: "\<forall>d. parse (stringify d) = Inr d"
    and step: "router parse stringify wo rq f = (r, f')"
    and readable: "f \<noteq> Unreadable"
    and whole: "\<not> torn wo"
    and lo: "- (2 ^ 53) \<le> nextId (readData parse f)"
    and hi: "nextId (readData parse f) < 2 ^ 53"
  shows "f' \<noteq> Unreadable"
    and "(assigned (rq, wo) r = [nextId (readData parse f)]
            \<and> nextId (readData parse f') = nextId (readData parse f) + 1)
       \<or> (assigned (rq, wo) r = [] \<and> nextId (readData parse f') = nextId (readData parse f))"
    and "doc_inv (readData parse f) \<Longrightarrow> doc_inv (readData parse f')"
proof -
  let ?d = "readData parse f"
  let ?goal = "f' \<noteq> Unreadable
    \<and> ((assigned (rq, wo) r = [nextId ?d] \<and> nextId (readData parse f') = nextId ?d + 1)
       \<or> (assigned (rq, wo) r = [] \<and> nextId (readData parse f') = nextId ?d))
    \<and> (doc_inv ?d \<longrightarrow> doc_inv (readData parse f'))"
  from lo hi have inc: "js_increment (nextId ?d) = nextId ?d + 1"
    by (rule js_increment_exact)
  from whole have wo: "wo = Written \<or> wo = Refused" by (cases wo) simp_all
  have same: "f' = f \<Longrightarrow> assigned (rq, wo) r = [] \<Longrightarrow> ?goal"
    using readable by simp
  have ?goal
  proof (cases rq)
    case GET_tasks
    with step show ?thesis by (intro same) (auto simp: router_def getAllTasks_def)
  next
    case (POST_tasks rb)
    show ?thesis
    proof (cases rb)
      case None
      with POST_tasks step show ?thesis by (intro same) (auto simp: router_def createTask_def)
    next
      case (Some b)
      let ?t = "\<lparr>task_id = nextId ?d, title = property b ''title'', completed = property b ''completed''\<rparr>"
      show ?thesis
      proof (cases "status r = 201")
        case False
        with Some POST_tasks step wo show ?thesis
          by (intro same) (auto simp: router_def createTask_body Let_def split: if_splits)
      next
        case True
        with Some POST_tasks step wo readable inc
        have r: "r = \<lparr>status = 201, body = TaskJson ?t\<rparr>"
          and f': "f' = Content (stringify (?d\<lparr>tasks := tasks ?d @ [?t], nextId := nextId ?d + 1\<rparr>))"
          by (auto simp: router_def createTask_body Let_def fs_written_readable split: if_splits)
        from f' codec have d': "readData parse f' = ?d\<lparr>tasks := tasks ?d @ [?t], nextId := nextId ?d + 1\<rparr>"
          by (simp add: readData_Content)
        have "doc_inv ?d \<longrightarrow> doc_inv (readData parse f')"
          unfolding d' by (auto simp: doc_inv_def list_all_iff)
        with r f' d' POST_tasks show ?thesis by simp
      qed
    qed
  next
    case (PUT_tasks idParam rb)
    with step have u: "updateTask parse stringify wo idParam rb f = (r, f')"
      by (simp add: router_def)
    show ?thesis
    proof (cases "status r = 200")
      case False
      have "f' = f"
      proof (cases rb)
        case None
        with u show ?thesis by (simp add: updateTask_no_body)
      next
        case (Some b)
        with u False wo show ?thesis
          by (cases "findIndex (id_matches (parseInt idParam)) (tasks ?d)")
             (auto simp: updateTask_not_found updateTask_found Let_def)
      qed
      with PUT_tasks show ?thesis by (intro same) simp_all
    next
      case True
      from codec u True obtain b i where i: "i < length (tasks ?d)"
        and d': "readData parse f' = ?d\<lparr>tasks := (tasks ?d)[i := patched b (tasks ?d ! i)]\<rparr>"
        and found: "findIndex (id_matches (parseInt idParam)) (tasks ?d) = Some i"
        and b: "rb = Some b"
        by (rule updateTask_ok)
      from u b wo True have "f' \<noteq> Unreadable"
        by (auto simp: updateTask_found [OF found] Let_def)
      moreover from d' i have n: "nextId (readData parse f') = nextId ?d"
        and ids: "map task_id (tasks (readData parse f')) = map task_id (tasks ?d)"
        by (simp_all add: map_task_id_patched)
      moreover have "doc_inv ?d \<longrightarrow> doc_inv (readData parse f')"
        using n ids
        by (simp add: doc_inv_def list_all_iff) (metis (no_types, lifting) image_iff list.set_map)
      ultimately show ?thesis using PUT_tasks by simp
    qed
  next
    case (DELETE_tasks idParam)
    show ?thesis
    proof (cases "findIndex (id_matches (parseInt idParam)) (tasks ?d)")
      case None
      with DELETE_tasks step show ?thesis
        by (intro same) (auto simp: router_def deleteTask_not_found)
    next
      case (Some i)
      show ?thesis
      proof (cases "wo = Written")
        case False
        with wo Some DELETE_tasks step show ?thesis
          by (intro same) (auto simp: router_def deleteTask_found Let_def)
      next
        case True
        with Some DELETE_tasks step
        have f': "f' = Content (stringify (?d\<lparr>tasks := splice1 i (tasks ?d)\<rparr>))"
          by (auto simp: router_def deleteTask_found Let_def)
        with codec have d': "readData parse f' = ?d\<lparr>tasks := splice1 i (tasks ?d)\<rparr>"
          by (simp add: readData_Content)
        have "doc_inv ?d \<longrightarrow> doc_inv (readData parse f')"
          unfolding d' using splice1_set [of i "tasks ?d"]
          by (auto simp: doc_inv_def list_all_iff splice1_distinct_map)
        with f' d' DELETE_tasks show ?thesis by simp
      qed
    qed
  qed
  then show "f' \<noteq> Unreadable"
    and "(assigned (rq, wo) r = [nextId ?d] \<and> nextId (readData parse f') = nextId ?d + 1)
       \<or> (assigned (rq, wo) r = [] \<and> nextId (readData parse f') = nextId ?d)"
    and "doc_inv ?d \<Longrightarrow> doc_inv (readData parse f')"
    by blast+
qed

lemma run_assigned:
  assumes codec: "\<forall>d. parse (stringify d) = Inr d"
  shows "run parse stringify rqs f = (rs, f') \<Longrightarrow> f \<noteq> Unreadable
         \<Longrightarrow> list_all (\<lambda>p. \<not> torn (snd p)) rqs
         \<Longrightarrow> - (2 ^ 53) \<le> nextId (readData parse f)
         \<Longrightarrow> nextId (readData parse f) + int (length rqs) \<le> 2 ^ 53
         \<Longrightarrow> nextId (readData parse f) \<le> nextId (readData parse f')
             \<and> assigned_ids rqs rs = [nextId (readData parse f) .. nextId (readData parse f') - 1]
             \<and> (doc_inv (readData parse f) \<longrightarrow> doc_inv (readData parse f'))"
proof (induction rqs arbitrary: f rs)
  case Nil
  then show ?case by (simp add: assigned_ids_def)
next
  case (Cons p rqs)
  obtain rq wo where p: "p = (rq, wo)" by (cases p)
  obtain r f1 where step: "router parse stringify wo rq f = (r, f1)"
    by (cases "router parse stringify wo rq f")
  obtain rs1 f2 where rest: "run parse stringify rqs f1 = (rs1, f2)"
    by (cases "run parse stringify rqs f1")
  from Cons.prems(1) p step rest have rs: "rs = r # rs1" and f2: "f2 = f'"
    by simp_all
  from rest f2 have rest': "run parse stringify rqs f1 = (rs1, f')" by simp
  from Cons.prems(3) p have whole: "\<not> torn wo" and wholes: "list_all (\<lambda>p. \<not> torn (snd p)) rqs"
    by simp_all
  from Cons.prems(5) have hi: "nextId (readData parse f) < 2 ^ 53" by simp
  note st = router_step [OF codec step Cons.prems(2) whole Cons.prems(4) hi]
  from st(2) have n1: "nextId (readData parse f) \<le> nextId (readData parse f1)"
    and n1': "nextId (readData parse f1) \<le> nextId (readData parse f) + 1"
    by auto
  from n1 Cons.prems(4) have lo1: "- (2 ^ 53) \<le> nextId (readData parse f1)" by simp
  from n1' Cons.prems(5) have hi1: "nextId (readData parse f1) + int (length rqs) \<le> 2 ^ 53"
    by simp
  from Cons.IH [OF rest' st(1) wholes lo1 hi1]
  have mono: "nextId (readData parse f1) \<le> nextId (readData parse f')"
    and ids: "assigned_ids rqs rs1 = [nextId (readData parse f1) .. nextId (readData parse f') - 1]"
    and inv: "doc_inv (readData parse f1) \<longrightarrow> doc_inv (readData parse f')"
    by simp_all
  have split: "assigned_ids (p # rqs) rs = assigned (rq, wo) r @ assigned_ids rqs rs1"
    by (simp add: assigned_ids_def p rs)
  from inv st(3) have inv': "doc_inv (readData parse f) \<longrightarrow> doc_inv (readData parse f')"
    by blast
  from st(2) show ?case
  proof
    assume a: "assigned (rq, wo) r = [nextId (readData parse f)]
      \<and> nextId (readData parse f1) = nextId (readData parse f) + 1"
    with mono have "nextId (readData parse f) \<le> nextId (readData parse f') - 1" by arith
    from upto_rec1 [OF this] a ids split mono inv' show ?thesis by simp
  next
    assume "assigned (rq, wo) r = [] \<and> nextId (readData parse f1) = nextId (readData parse f)"
    with ids split mono inv' show ?thesis by simp
  qed
qed

lemma demo_run:
  "run Inr (\<lambda>d. d) demo_requests Missing =
     (demo_responses,
      Content \<lparr>tasks = [\<lparr>task_id = 2, title = JStr (units ''c''), completed = JBool True\<rparr>], nextId = 3\<rparr>)"
  by (simp add: demo_requests_def demo_responses_def router_def createTask_body deleteTask_def Let_def
      property_def readData_def fs_readFile_def default_data_def writeData_eq
      parseInt_1 [simplified] id_matches_def splice1_def fs_written_def js_increment_exact)

text \<open>
  On a file that the process may write but not read, every create loads the default
  document, so two creates answer 201 with the same id.
\<close>

lemma two_creates_unreadable:
  "run Inr (\<lambda>d. d) two_creates Unreadable =
     ([\<lparr>status = 201, body = TaskJson \<lparr>task_id = 1, title = JStr (units ''a''), completed = JBool False\<rparr>\<rparr>,
       \<lparr>status = 201, body = TaskJson \<lparr>task_id = 1, title = JStr (units ''b''), completed = JBool False\<rparr>\<rparr>],
      Unreadable)"
  by (simp add: two_creates_def router_def createTask_body Let_def property_def readData_Unreadable
      default_data_def fs_written_def)

text \<open>
  At 2 to the power 53 the counter no longer moves, and two creates get the same id.
\<close>

lemma two_creates_at_2_53:
  "fst (run Inr (\<lambda>d. d) two_creates (Content \<lparr>tasks = [], nextId = 9007199254740992\<rparr>)) =
     [\<lparr>status = 201, body = TaskJson \<lparr>task_id = 9007199254740992, title = JStr (units ''a''),
                                     completed = JBool False\<rparr>\<rparr>,
      \<lparr>status = 201, body = TaskJson \<lparr>task_id = 9007199254740992, title = JStr (units ''b''),
                                     completed = JBool False\<rparr>\<rparr>]"
  by (simp add: two_creates_def router_def createTask_body Let_def property_def readData_Content
      fs_written_def js_increment_stops)

section \<open>The unit tests of the repository, on the model\<close>

text \<open>
  The cases of \<open>__tests__/controllers/taskController.test.js\<close> that the real store
  can produce, with the contents the tests mock for the file.
\<close>

lemma test_create_valid:
  "createTask Inr (\<lambda>d. d) Written
       (Some [''title'' \<mapsto> JStr (units ''New Task''), ''completed'' \<mapsto> JBool False])
       (Content \<lparr>tasks = [], nextId = 1\<rparr>) =
     (\<lparr>status = 201,
       body = TaskJson \<lparr>task_id = 1, title = JStr (units ''New Task''), completed = JBool False\<rparr>\<rparr>,
      Content \<lparr>tasks = [\<lparr>task_id = 1, title = JStr (units ''New Task''), completed = JBool False\<rparr>],
                nextId = 2\<rparr>)"
  by (simp add: createTask_body Let_def property_def readData_Content fs_written_def
      js_increment_exact)

lemma test_create_empty_title:
  "createTask parse stringify wo (Some [''title'' \<mapsto> JStr [], ''completed'' \<mapsto> JBool False]) f =
     (\<lparr>status = 400, body = ErrorJson DonneesInvalides\<rparr>, f)"
  by (simp add: createTask_body Let_def property_def)

lemma test_create_invalid_completed:
  "createTask parse stringify wo
       (Some [''title'' \<mapsto> JStr (units ''Valid Title''), ''completed'' \<mapsto> JStr (units ''false'')]) f =
     (\<lparr>status = 400, body = ErrorJson DonneesInvalides\<rparr>, f)"
  by (simp add: createTask_body Let_def property_def)

lemma test_create_write_fails:
  "createTask parse stringify Refused
       (Some [''title'' \<mapsto> JStr (units ''Valid Task''), ''completed'' \<mapsto> JBool True]) f =
     (\<lparr>status = 500, body = ErrorJson ErreurCreation\<rparr>, f)"
  by (simp add: createTask_body Let_def property_def)

lemma test_update_valid:
  "updateTask Inr (\<lambda>d. d) Written (units ''1'')
       (Some [''title'' \<mapsto> JStr (units ''Updated Task''), ''completed'' \<mapsto> JBool True])
       (Content \<lparr>tasks = [\<lparr>task_id = 1, title = JStr (units ''Original Task''), completed = JBool False\<rparr>],
                 nextId = 2\<rparr>) =
     (\<lparr>status = 200,
       body = TaskJson \<lparr>task_id = 1, title = JStr (units ''Updated Task''), completed = JBool True\<rparr>\<rparr>,
      Content \<lparr>tasks = [\<lparr>task_id = 1, title = JStr (units ''Updated Task''), completed = JBool True\<rparr>],
                nextId = 2\<rparr>)"
  by (simp add: updateTask_def Let_def readData_Content parseInt_1 [simplified] id_matches_def
      property_def writeData_eq fs_written_def)

lemma test_update_title_only:
  "fst (updateTask Inr (\<lambda>d. d) Written (units ''1'') (Some [''title'' \<mapsto> JStr (units ''New Title'')])
       (Content \<lparr>tasks = [\<lparr>task_id = 1, title = JStr (units ''Old Title''), completed = JBool True\<rparr>],
                 nextId = 2\<rparr>)) =
     \<lparr>status = 200,
      body = TaskJson \<lparr>task_id = 1, title = JStr (units ''New Title''), completed = JBool True\<rparr>\<rparr>"
  by (simp add: updateTask_def Let_def readData_Content parseInt_1 [simplified] id_matches_def
      property_def writeData_eq fs_written_def)

lemma test_update_not_found:
  "updateTask Inr (\<lambda>d. d) Written (units ''999'') (Some [''title'' \<mapsto> JStr (units ''Updated'')])
       (Content \<lparr>tasks = [], nextId = 1\<rparr>) =
     (\<lparr>status = 404, body = ErrorJson TacheNonTrouvee\<rparr>, Content \<lparr>tasks = [], nextId = 1\<rparr>)"
  by (simp add: updateTask_def Let_def readData_Content)

lemma test_delete_existing:
  "deleteTask Inr (\<lambda>d. d) Written (units ''1'')
       (Content \<lparr>tasks = [\<lparr>task_id = 1, title = JStr (units ''Task to delete''), completed = JBool False\<rparr>,
                          \<lparr>task_id = 2, title = JStr (units ''Task to keep''), completed = JBool True\<rparr>],
                 nextId = 3\<rparr>) =
     (\<lparr>status = 200, body = MessageJson ''Task deleted successfully''\<rparr>,
      Content \<lparr>tasks = [\<lparr>task_id = 2, title = JStr (units ''Task to keep''), completed = JBool True\<rparr>],
                nextId = 3\<rparr>)"
  by (simp add: deleteTask_def Let_def readData_Content parseInt_1 [simplified] id_matches_def
      writeData_eq splice1_def fs_written_def)

lemma test_delete_not_found:
  "deleteTask Inr (\<lambda>d. d) Written (units ''999'') (Content \<lparr>tasks = [], nextId = 1\<rparr>) =
     (\<lparr>status = 404, body = ErrorJson TacheNonTrouvee\<rparr>, Content \<lparr>tasks = [], nextId = 1\<rparr>)"
  by (simp add: deleteTask_def Let_def readData_Content)

lemma test_get_all:
  "getAllTasks Inr (Content doc_ab) = (\<lparr>status = 200, body = TasksJson (tasks doc_ab)\<rparr>, Content doc_ab)"
  by (simp add: getAllTasks_def readData_Content)

text \<open>
  A torn write: the file is left with a text that does not parse, the next create loads
  the default document, and the id 1 is given a second time.
\<close>

lemma torn_write_repeats_id:
  "fst (run (\<lambda>s. case s of None \<Rightarrow> Inl SyntaxError | Some d \<Rightarrow> Inr d) Some
        [(POST_tasks (Some [''title'' \<mapsto> JStr (units ''a''), ''completed'' \<mapsto> JBool False]), Written),
         (POST_tasks (Some [''title'' \<mapsto> JStr (units ''b''), ''completed'' \<mapsto> JBool False]), Torn None),
         (POST_tasks (Some [''title'' \<mapsto> JStr (units ''c''), ''completed'' \<mapsto> JBool False]), Written)]
        Missing) =
     [\<lparr>status = 201, body = TaskJson \<lparr>task_id = 1, title = JStr (units ''a''), completed = JBool False\<rparr>\<rparr>,
      \<lparr>status = 500, body = ErrorJson ErreurCreation\<rparr>,
      \<lparr>status = 201, body = TaskJson \<lparr>task_id = 1, title = JStr (units ''c''), completed = JBool False\<rparr>\<rparr>]"
  by (simp add: router_def createTask_body Let_def property_def readData_def fs_readFile_def
      default_data_def fs_written_def js_increment_exact)

section \<open>The claims\<close>

text \<open>
  C1, as amended. Requests are served one after the other, in any order and number, on
  a data file that is absent or can be read; a write is carried out whole or refused
  whole, never torn; the counter \<open>nextId\<close> starts at -2 to the power 53 or above and
  the run is short enough for it to end at 2 to the power 53 or below; \<open>JSON.parse\<close>
  inverts \<open>JSON.stringify\<close>. The ids given by the creates of the run are then strictly
  increasing and never repeat, also with deletions in between: they are exactly the
  values of \<open>nextId\<close> from the one loaded at the start up to the one before the one
  stored at the end, so each create took the counter and moved it up by one and no other
  request moved it. The counter never goes down and ends strictly above every id given.
  If the stored ids were distinct and below the counter at the start, they still are at
  the end.
\<close>

theorem created_ids_strictly_increase:
  assumes codec: "\<forall>d. parse (stringify d) = Inr d"
    and readable: "f \<noteq> Unreadable"
    and whole: "list_all (\<lambda>p. \<not> torn (snd p)) rqs"
    and lo: "- (2 ^ 53) \<le> nextId (readData parse f)"
    and hi: "nextId (readData parse f) + int (length rqs) \<le> 2 ^ 53"
    and run: "run parse stringify rqs f = (rs, f')"
  shows "sorted_wrt (<) (assigned_ids rqs rs)
       \<and> distinct (assigned_ids rqs rs)
       \<and> assigned_ids rqs rs = [nextId (readData parse f) .. nextId (readData parse f') - 1]
       \<and> (\<forall>i \<in> set (assigned_ids rqs rs). i < nextId (readData parse f'))
       \<and> nextId (readData parse f) \<le> nextId (readData parse f')
       \<and> (doc_inv (readData parse f) \<longrightarrow> doc_inv (readData parse f'))"
proof -
  from run_assigned [OF codec run readable whole lo hi]
  have mono: "nextId (readData parse f) \<le> nextId (readData parse f')"
    and ids: "assigned_ids rqs rs = [nextId (readData parse f) .. nextId (readData parse f') - 1]"
    and inv: "doc_inv (readData parse f) \<longrightarrow> doc_inv (readData parse f')"
    by simp_all
  from ids have "sorted_wrt (<) (assigned_ids rqs rs)" and "distinct (assigned_ids rqs rs)"
    by simp_all
  moreover from ids have "\<forall>i \<in> set (assigned_ids rqs rs). i < nextId (readData parse f')"
    by simp
  ultimately show ?thesis using mono ids inv by blast
qed

theorem created_ids_strictly_increase_witness:
  "run Inr (\<lambda>d. d) demo_requests Missing =
     (demo_responses,
      Content \<lparr>tasks = [\<lparr>task_id = 2, title = JStr (units ''c''), completed = JBool True\<rparr>], nextId = 3\<rparr>)
   \<and> assigned_ids demo_requests demo_responses = [1, 2]
   \<and> sorted_wrt (<) (assigned_ids demo_requests demo_responses)
   \<and> distinct (assigned_ids demo_requests demo_responses)
   \<and> doc_inv (readData Inr
       (Content \<lparr>tasks = [\<lparr>task_id = 2, title = JStr (units ''c''), completed = JBool True\<rparr>], nextId = 3\<rparr>))"
proof -
  have ids: "assigned_ids demo_requests demo_responses = [1, 2]"
    by (simp add: assigned_ids_def demo_requests_def demo_responses_def)
  have inv: "doc_inv (readData (Inr :: document \<Rightarrow> error + document) Missing)"
    by (simp add: readData_Missing doc_inv_def default_data_def)
  have readable: "(Missing :: document data_file) \<noteq> Unreadable" by simp
  have whole: "list_all (\<lambda>p. \<not> torn (snd p)) demo_requests"
    by (simp add: demo_requests_def)
  have lo: "- (2 ^ 53) \<le> nextId (readData (Inr :: document \<Rightarrow> error + document) Missing)"
    by (simp add: readData_Missing default_data_def)
  have hi: "nextId (readData (Inr :: document \<Rightarrow> error + document) Missing)
      + int (length demo_requests) \<le> 2 ^ 53"
    by (simp add: readData_Missing default_data_def demo_requests_def)
  from created_ids_strictly_increase [OF ideal_codec readable whole lo hi demo_run] demo_run ids inv
  show ?thesis by blast
qed

text \<open>
  Against C1 as it was stated: on a data file that the process may write but not read,
  two creates in a row are both given the id 1.
\<close>

theorem same_id_on_unreadable_file:
  "assigned_ids two_creates (fst (run Inr (\<lambda>d. d) two_creates Unreadable)) = [1, 1]
   \<and> \<not> distinct (assigned_ids two_creates (fst (run Inr (\<lambda>d. d) two_creates Unreadable)))"
  by (simp add: two_creates_unreadable) (simp add: assigned_ids_def two_creates_def)

text \<open>
  C2. Let the document hold a task with the requested id, at the index \<open>i\<close> that
  \<open>findIndex\<close> returns. An update whose body has no \<open>title\<close> leaves the title of
  that task as it was, both in the stored document, whether the write is carried out or
  refused, and in the task it answers with; an update whose body has no \<open>completed\<close>
  does the same for \<open>completed\<close>. (After a torn write the file holds what the tear
  left of it.)
\<close>

theorem update_keeps_omitted_fields:
  assumes codec: "\<forall>d. parse (stringify d) = Inr d"
    and found: "findIndex (id_matches (parseInt idParam)) (tasks (readData parse f)) = Some i"
    and res: "updateTask parse stringify wo idParam (Some b) f = (r, f')"
  shows "(b ''title'' = None \<longrightarrow>
            (\<not> torn wo \<longrightarrow>
               title (tasks (readData parse f') ! i) = title (tasks (readData parse f) ! i))
          \<and> (\<forall>t. body r = TaskJson t \<longrightarrow> title t = title (tasks (readData parse f) ! i)))
       \<and> (b ''completed'' = None \<longrightarrow>
            (\<not> torn wo \<longrightarrow>
               completed (tasks (readData parse f') ! i) = completed (tasks (readData parse f) ! i))
          \<and> (\<forall>t. body r = TaskJson t \<longrightarrow> completed t = completed (tasks (readData parse f) ! i)))"
proof -
  from findIndex_Some [OF found] have i: "i < length (tasks (readData parse f))" by simp
  show ?thesis
  proof (cases wo)
    case Written
    with res i codec show ?thesis
      by (auto simp: updateTask_found [OF found] Let_def readData_Content property_def patched_def)
  next
    case Refused
    with res show ?thesis
      by (auto simp: updateTask_found [OF found] Let_def)
  next
    case (Torn s)
    with res show ?thesis
      by (auto simp: updateTask_found [OF found] Let_def)
  qed
qed

lemma update_doc_x_completed:
  "updateTask Inr (\<lambda>d. d) Written (units ''1'') (Some [''completed'' \<mapsto> JBool True]) (Content doc_x) =
     (\<lparr>status = 200, body = TaskJson \<lparr>task_id = 1, title = JStr (units ''X''), completed = JBool True\<rparr>\<rparr>,
      Content \<lparr>tasks = [\<lparr>task_id = 1, title = JStr (units ''X''), completed = JBool True\<rparr>], nextId = 2\<rparr>)"
  by (simp add: updateTask_def Let_def readData_Content doc_x_def parseInt_1 [simplified]
      id_matches_def property_def writeData_eq fs_written_def)

theorem update_keeps_omitted_fields_witness:
  "findIndex (id_matches (parseInt (units ''1''))) (tasks (readData Inr (Content doc_x))) = Some 0
   \<and> updateTask Inr (\<lambda>d. d) Written (units ''1'') (Some [''completed'' \<mapsto> JBool True]) (Content doc_x) =
     (\<lparr>status = 200, body = TaskJson \<lparr>task_id = 1, title = JStr (units ''X''), completed = JBool True\<rparr>\<rparr>,
      Content \<lparr>tasks = [\<lparr>task_id = 1, title = JStr (units ''X''), completed = JBool True\<rparr>], nextId = 2\<rparr>)
   \<and> title (tasks (readData Inr
        (Content \<lparr>tasks = [\<lparr>task_id = 1, title = JStr (units ''X''), completed = JBool True\<rparr>],
                  nextId = 2\<rparr>)) ! 0)
      = title (tasks (readData Inr (Content doc_x)) ! 0)"
proof -
  have fi: "findIndex (id_matches (parseInt (units ''1''))) (tasks (readData Inr (Content doc_x))) = Some 0"
    by (simp add: readData_Content doc_x_def parseInt_1 [simplified] id_matches_def)
  have t: "[''completed'' \<mapsto> JBool True] ''title'' = None" by simp
  have w: "\<not> torn (Written :: document write_outcome)" by simp
  from update_keeps_omitted_fields [OF ideal_codec fi update_doc_x_completed] t w
  have "title (tasks (readData Inr
        (Content \<lparr>tasks = [\<lparr>task_id = 1, title = JStr (units ''X''), completed = JBool True\<rparr>],
                  nextId = 2\<rparr>)) ! 0)
      = title (tasks (readData Inr (Content doc_x)) ! 0)"
    by blast
  with fi update_doc_x_completed show ?thesis by blast
qed




text \<open>The create route has no upper bound on the title either: 201 code units are stored.\<close>

lemma create_accepts_201_characters:
  "length (replicate 201 (97::nat)) = 201
   \<and> fst (router Inr (\<lambda>d. d) Written
        (POST_tasks (Some [''title'' \<mapsto> JStr (replicate 201 97), ''completed'' \<mapsto> JBool False])) Missing) =
      \<lparr>status = 201,
        body = TaskJson \<lparr>task_id = 1, title = JStr (replicate 201 97), completed = JBool False\<rparr>\<rparr>"
  by (simp add: router_def createTask_body Let_def property_def readData_Missing default_data_def)

text \<open>
  C4. The update route runs \<open>updateTask\<close> with no validation before it. On a document
  that holds task 1, an update of task 1 with an empty title is answered 200 and the
  empty title is stored, and so is an update whose \<open>completed\<close> is the string "yes".
\<close>

theorem update_accepts_invalid_fields:
  "router Inr (\<lambda>d. d) Written (PUT_tasks (units ''1'') (Some [''title'' \<mapsto> JStr []])) (Content doc_x) =
     (\<lparr>status = 200, body = TaskJson \<lparr>task_id = 1, title = JStr [], completed = JBool False\<rparr>\<rparr>,
      Content \<lparr>tasks = [\<lparr>task_id = 1, title = JStr [], completed = JBool False\<rparr>], nextId = 2\<rparr>)
   \<and> router Inr (\<lambda>d. d) Written (PUT_tasks (units ''1'') (Some [''completed'' \<mapsto> JStr (units ''yes'')]))
       (Content doc_x) =
     (\<lparr>status = 200,
       body = TaskJson \<lparr>task_id = 1, title = JStr (units ''X''), completed = JStr (units ''yes'')\<rparr>\<rparr>,
      Content \<lparr>tasks = [\<lparr>task_id = 1, title = JStr (units ''X''), completed = JStr (units ''yes'')\<rparr>],
                nextId = 2\<rparr>)"
  by (simp add: router_def updateTask_def Let_def readData_Content doc_x_def parseInt_1 [simplified]
      id_matches_def property_def writeData_eq fs_written_def)

theorem update_accepts_invalid_fields_witness:
  "status (fst (router Inr (\<lambda>d. d) Written (PUT_tasks (units ''1'') (Some [''title'' \<mapsto> JStr []]))
       (Content doc_x))) = 200
   \<and> readData Inr (snd (router Inr (\<lambda>d. d) Written (PUT_tasks (units ''1'') (Some [''title'' \<mapsto> JStr []]))
       (Content doc_x)))
       \<noteq> readData Inr (Content doc_x)"
  using update_accepts_invalid_fields by (simp add: readData_Content doc_x_def)

text \<open>No update is ever answered 400.\<close>

lemma updateTask_status:
  "status (fst (updateTask parse stringify wo idParam rb f)) \<in> {200, 404, 500}"
  by (cases rb; cases "findIndex (id_matches (parseInt idParam)) (tasks (readData parse f))"; cases wo)
     (auto simp: updateTask_def Let_def writeData_eq)




text \<open>
  C7. When the data file is missing, cannot be read, or does not parse, \<open>readData\<close>
  returns the empty document with \<open>nextId\<close> 1. It has no error result: every error of
  the \<open>try\<close> block ends in the \<open>catch\<close> block.
\<close>

theorem load_falls_back:
  assumes "f = Missing \<or> f = Unreadable \<or> (\<exists>s e. f = Content s \<and> parse s = Inl e)"
  shows "readData parse f = \<lparr>tasks = [], nextId = 1\<rparr>"
  using assms by (auto simp: readData_def fs_readFile_def default_data_def)

theorem load_falls_back_witness:
  "readData (Inr :: document \<Rightarrow> error + document) Missing = \<lparr>tasks = [], nextId = 1\<rparr>
   \<and> readData (Inr :: document \<Rightarrow> error + document) Unreadable = \<lparr>tasks = [], nextId = 1\<rparr>
   \<and> readData (\<lambda>s :: string. Inl SyntaxError) (Content ''{oops'') = \<lparr>tasks = [], nextId = 1\<rparr>"
  using load_falls_back [of "Missing :: document data_file" Inr]
    load_falls_back [of "Unreadable :: document data_file" Inr]
    load_falls_back [of "Content ''{oops''" "\<lambda>s :: string. Inl SyntaxError"]
  by simp

text \<open>
  C8. When exactly one task of the loaded document has the requested id and the write
  succeeds, \<open>deleteTask\<close> answers 200 and stores the tasks without that one: the others
  are the same tasks in the same order, one task fewer, and \<open>nextId\<close> is as it was.
\<close>

theorem delete_removes_exactly_one:
  assumes codec: "\<forall>d. parse (stringify d) = Inr d"
    and one: "length (filter (id_matches (parseInt idParam)) (tasks (readData parse f))) = 1"
    and res: "deleteTask parse stringify Written idParam f = (r, f')"
  shows "r = \<lparr>status = 200, body = MessageJson ''Task deleted successfully''\<rparr>
       \<and> tasks (readData parse f') =
           filter (\<lambda>t. \<not> id_matches (parseInt idParam) t) (tasks (readData parse f))
       \<and> length (tasks (readData parse f')) + 1 = length (tasks (readData parse f))
       \<and> nextId (readData parse f') = nextId (readData parse f)"
proof -
  let ?P = "id_matches (parseInt idParam)"
  let ?d = "readData parse f"
  from one have "\<exists>t \<in> set (tasks ?d). ?P t"
    by (metis filter_False length_0_conv zero_neq_one)
  then obtain i where found: "findIndex ?P (tasks ?d) = Some i"
    by (cases "findIndex ?P (tasks ?d)") (auto simp: findIndex_None_iff)
  from res have r: "r = \<lparr>status = 200, body = MessageJson ''Task deleted successfully''\<rparr>"
    and f': "f' = Content (stringify (?d\<lparr>tasks := splice1 i (tasks ?d)\<rparr>))"
    by (simp_all add: deleteTask_found [OF found] Let_def)
  from f' codec have d': "readData parse f' = ?d\<lparr>tasks := splice1 i (tasks ?d)\<rparr>"
    by (simp add: readData_Content)
  have sp: "splice1 i (tasks ?d) = filter (\<lambda>t. \<not> ?P t) (tasks ?d)"
    by (rule splice1_unique [OF found one])
  have "length (filter ?P (tasks ?d)) + length (filter (\<lambda>t. \<not> ?P t) (tasks ?d)) = length (tasks ?d)"
    by (rule sum_length_filter_compl)
  with one have len: "length (filter (\<lambda>t. \<not> ?P t) (tasks ?d)) + 1 = length (tasks ?d)" by simp
  from r d' sp len show ?thesis by simp
qed

lemma delete_doc_abc:
  "deleteTask Inr (\<lambda>d. d) Written (units ''2'') (Content doc_abc) =
     (\<lparr>status = 200, body = MessageJson ''Task deleted successfully''\<rparr>,
      Content \<lparr>tasks = [\<lparr>task_id = 1, title = JStr (units ''A''), completed = JBool False\<rparr>,
                        \<lparr>task_id = 3, title = JStr (units ''C''), completed = JBool False\<rparr>], nextId = 4\<rparr>)"
  by (simp add: deleteTask_def Let_def readData_Content doc_abc_def parseInt_2 [simplified]
      id_matches_def writeData_eq splice1_def fs_written_def)

theorem delete_removes_exactly_one_witness:
  "length (filter (id_matches (parseInt (units ''2''))) (tasks (readData Inr (Content doc_abc)))) = 1
   \<and> deleteTask Inr (\<lambda>d. d) Written (units ''2'') (Content doc_abc) =
     (\<lparr>status = 200, body = MessageJson ''Task deleted successfully''\<rparr>,
      Content \<lparr>tasks = [\<lparr>task_id = 1, title = JStr (units ''A''), completed = JBool False\<rparr>,
                        \<lparr>task_id = 3, title = JStr (units ''C''), completed = JBool False\<rparr>], nextId = 4\<rparr>)
   \<and> tasks (readData Inr
        (Content \<lparr>tasks = [\<lparr>task_id = 1, title = JStr (units ''A''), completed = JBool False\<rparr>,
                          \<lparr>task_id = 3, title = JStr (units ''C''), completed = JBool False\<rparr>],
                  nextId = 4\<rparr>))
      = filter (\<lambda>t. \<not> id_matches (parseInt (units ''2'')) t) (tasks (readData Inr (Content doc_abc)))"
proof -
  have one: "length (filter (id_matches (parseInt (units ''2''))) (tasks (readData Inr (Content doc_abc)))) = 1"
    by (simp add: readData_Content doc_abc_def parseInt_2 [simplified] id_matches_def)
  from delete_removes_exactly_one [OF ideal_codec one delete_doc_abc] one delete_doc_abc
  show ?thesis by blast
qed




text \<open>
  C10. An update that answers 200 changes nothing but the title and the completed flag of
  the task it found: \<open>nextId\<close> is as it was, the ids of all tasks are as they were,
  in the same order, also when the body has an \<open>id\<close> of its own, and every task at
  another index is the task that was there. The answer is the task now stored at the
  index found.
\<close>

theorem update_changes_only_title_and_completed:
  assumes codec: "\<forall>d. parse (stringify d) = Inr d"
    and res: "updateTask parse stringify wo idParam rb f = (r, f')"
    and ok: "status r = 200"
  shows "nextId (readData parse f') = nextId (readData parse f)
       \<and> map task_id (tasks (readData parse f')) = map task_id (tasks (readData parse f))
       \<and> (\<exists>i. findIndex (id_matches (parseInt idParam)) (tasks (readData parse f)) = Some i
              \<and> i < length (tasks (readData parse f))
              \<and> body r = TaskJson (tasks (readData parse f') ! i)
              \<and> task_id (tasks (readData parse f') ! i) = task_id (tasks (readData parse f) ! i)
              \<and> (\<forall>j < length (tasks (readData parse f)). j \<noteq> i \<longrightarrow>
                    tasks (readData parse f') ! j = tasks (readData parse f) ! j))"
proof -
  let ?d = "readData parse f"
  from codec res ok obtain b i where
    found: "findIndex (id_matches (parseInt idParam)) (tasks ?d) = Some i"
    and i: "i < length (tasks ?d)"
    and r: "r = \<lparr>status = 200, body = TaskJson (patched b (tasks ?d ! i))\<rparr>"
    and d': "readData parse f' = ?d\<lparr>tasks := (tasks ?d)[i := patched b (tasks ?d ! i)]\<rparr>"
    by (rule updateTask_ok)
  from d' have "nextId (readData parse f') = nextId ?d" by simp
  moreover from d' i have "map task_id (tasks (readData parse f')) = map task_id (tasks ?d)"
    by (simp add: map_task_id_patched)
  moreover from d' r i have "body r = TaskJson (tasks (readData parse f') ! i)"
    and "task_id (tasks (readData parse f') ! i) = task_id (tasks ?d ! i)"
    and "\<forall>j < length (tasks ?d). j \<noteq> i \<longrightarrow> tasks (readData parse f') ! j = tasks ?d ! j"
    by (simp_all add: task_id_patched)
  ultimately show ?thesis using found i by blast
qed

lemma update_doc_ab_with_id:
  "updateTask Inr (\<lambda>d. d) Written (units ''1'')
       (Some [''id'' \<mapsto> JNum 42, ''title'' \<mapsto> JStr (units ''Y'')]) (Content doc_ab) =
     (\<lparr>status = 200, body = TaskJson \<lparr>task_id = 1, title = JStr (units ''Y''), completed = JBool False\<rparr>\<rparr>,
      Content \<lparr>tasks = [\<lparr>task_id = 1, title = JStr (units ''Y''), completed = JBool False\<rparr>,
                        \<lparr>task_id = 2, title = JStr (units ''B''), completed = JBool True\<rparr>], nextId = 3\<rparr>)"
  by (simp add: updateTask_def Let_def readData_Content doc_ab_def parseInt_1 [simplified]
      id_matches_def property_def writeData_eq fs_written_def)

theorem update_changes_only_title_and_completed_witness:
  "updateTask Inr (\<lambda>d. d) Written (units ''1'')
       (Some [''id'' \<mapsto> JNum 42, ''title'' \<mapsto> JStr (units ''Y'')]) (Content doc_ab) =
     (\<lparr>status = 200, body = TaskJson \<lparr>task_id = 1, title = JStr (units ''Y''), completed = JBool False\<rparr>\<rparr>,
      Content \<lparr>tasks = [\<lparr>task_id = 1, title = JStr (units ''Y''), completed = JBool False\<rparr>,
                        \<lparr>task_id = 2, title = JStr (units ''B''), completed = JBool True\<rparr>], nextId = 3\<rparr>)
   \<and> nextId (readData Inr
        (Content \<lparr>tasks = [\<lparr>task_id = 1, title = JStr (units ''Y''), completed = JBool False\<rparr>,
                          \<lparr>task_id = 2, title = JStr (units ''B''), completed = JBool True\<rparr>],
                  nextId = 3\<rparr>))
       = nextId (readData Inr (Content doc_ab))
   \<and> map task_id (tasks (readData Inr
        (Content \<lparr>tasks = [\<lparr>task_id = 1, title = JStr (units ''Y''), completed = JBool False\<rparr>,
                          \<lparr>task_id = 2, title = JStr (units ''B''), completed = JBool True\<rparr>],
                  nextId = 3\<rparr>)))
       = map task_id (tasks (readData Inr (Content doc_ab)))"
proof -
  have s: "status \<lparr>status = 200,
      body = TaskJson \<lparr>task_id = 1, title = JStr (units ''Y''), completed = JBool False\<rparr>\<rparr> = 200"
    by simp
  from update_changes_only_title_and_completed [OF ideal_codec update_doc_ab_with_id s]
    update_doc_ab_with_id
  show ?thesis by blast
qed

end
